theory Spec2Isabelle
  imports Main "HOL-Library.AList"
begin

section \<open>JavaScript values and string rendering\<close>

text \<open>
  The handlers receive payloads typed \<open>any\<close>. The fragment of JavaScript values that the
  code inspects is modelled by \<open>jsval\<close>; numbers are the integers (message ids and
  counters), and \<open>truthy\<close> is the ToBoolean conversion used by \<open>if (x)\<close>, \<open>x ? a : b\<close>
  and \<open>x || y\<close>.
\<close>

datatype jsval =
    JUndefined
  | JNull
  | JBool bool
  | JNum int
  | JStr string
  | JObj "(string \<times> jsval) list"

fun truthy :: "jsval \<Rightarrow> bool" where
  "truthy JUndefined = False"
| "truthy JNull = False"
| "truthy (JBool b) = b"
| "truthy (JNum n) = (n \<noteq> 0)"
| "truthy (JStr s) = (s \<noteq> [])"
| "truthy (JObj fs) = True"

text \<open>An optional string field (\<open>None\<close> is \<open>undefined\<close>) used as a condition.\<close>

fun truthy_str :: "string option \<Rightarrow> bool" where
  "truthy_str None = False"
| "truthy_str (Some s) = (s \<noteq> [])"

text \<open>An optional string inside a template literal: \<open>undefined\<close> prints as its name.\<close>

fun tpl :: "string option \<Rightarrow> string" where
  "tpl None = ''undefined''"
| "tpl (Some s) = s"

text \<open>An integer inside a template literal: its decimal digits, with a sign when negative.\<close>

definition digit_char :: "nat \<Rightarrow> char" where
  "digit_char d = ''0123456789'' ! d"

fun nat_str :: "nat \<Rightarrow> string" where
  "nat_str n = (if n < 10 then [digit_char n] else nat_str (n div 10) @ [digit_char (n mod 10)])"

definition num_str :: "int \<Rightarrow> string" where
  "num_str i = (if i < 0 then ''-'' @ nat_str (nat (- i)) else nat_str (nat i))"

section \<open>Identities\<close>

record Identity =
  uuid :: string
  name :: "string option"

text \<open>
  What \<open>getExternalOrOfWindowIdentity\<close> resolves an identity to: the owner's identity and
  whether it is an external connection. The resolver itself lives in \<open>core_state\<close> and is a
  parameter of \<open>createChannel\<close> below.
\<close>

record OwnerEntity = Identity +
  isExternal :: bool

record ProviderIdentity = OwnerEntity +
  channelName :: "string option"
  channelId :: string

section \<open>Event routes and the notification bus\<close>

text \<open>
  Modelled from the spec: the \<open>route\<close> helper (\<open>common/route\<close>) that composes event
  names. The spec describes them as namespaced strings composed from a category, an
  optional uuid and an optional window name; each constructor is one category applied to
  the event type and those parts.
\<close>

datatype route_event =
    ExternalApplicationRoute string string
  | WindowRoute string string "string option"
  | ApplicationRoute string string
  | ChannelRoute string

text \<open>The two closures that \<open>createChannelTeardown\<close> hands to \<open>ofEvents.once\<close>.\<close>

datatype teardown_handler =
    RemoveAndDisconnect ProviderIdentity
  | RemoveOnly string

section \<open>Acknowledgement callbacks and effects\<close>

text \<open>Callbacks are opaque closures of the caller; they are told apart by an identifier.\<close>

type_synonym callback = nat

record RemoteAck =
  ack :: callback
  nack :: callback

record AckToSender =
  ats_action :: string
  ats_correlationId :: int
  ats_destinationToken :: Identity
  ats_payload :: ProviderIdentity
  ats_success :: bool

record ConnectionMessage =
  cm_action :: string
  cm_ackToSender :: AckToSender
  cm_providerIdentity :: ProviderIdentity
  cm_clientIdentity :: Identity
  cm_payload :: jsval

text \<open>The argument of a successful \<open>ack\<close>: \<open>success\<close> and an optional \<open>data\<close> property.\<close>

record AckResult =
  ar_success :: bool
  ar_data :: "jsval option"

datatype nack_reason =
    NackString string
  | NackError jsval

datatype effect =
    Emit route_event ProviderIdentity
  | SendToIdentity ProviderIdentity ConnectionMessage
  | CallAck callback AckResult
  | CallNack callback nack_reason

datatype error = RegistrationError string

section \<open>The channel registry\<close>

text \<open>
  \<open>channelMap\<close> is a JavaScript \<open>Map\<close>, iterated in insertion order: an association list
  with \<open>AList.update\<close> (a new key goes to the end) and \<open>AList.delete\<close>. \<open>remoteAckMap\<close> is
  only read and written by key. \<open>onceListeners\<close> are the one-shot teardown watches armed on
  the notification bus, in registration order.
\<close>

record channel_state =
  channelMap :: "(string \<times> ProviderIdentity) list"
  remoteAckMap :: "string \<rightharpoonup> RemoteAck"
  onceListeners :: "(route_event \<times> teardown_handler) list"

definition initial_state :: channel_state where
  "initial_state = \<lparr>channelMap = [], remoteAckMap = Map.empty, onceListeners = []\<rparr>"

definition CHANNEL_ACK_ACTION :: string where
  "CHANNEL_ACK_ACTION = ''send-channel-result''"

definition CHANNEL_CONNECT_ACTION :: string where
  "CHANNEL_CONNECT_ACTION = ''process-channel-connection''"

definition getAckKey :: "int \<Rightarrow> Identity \<Rightarrow> string" where
  "getAckKey i identity = num_str i @ ''-'' @ uuid identity @ ''-'' @ tpl (name identity)"

definition getChannelId :: "string \<Rightarrow> string option \<Rightarrow> string option \<Rightarrow> string" where
  "getChannelId u n c = u @ ''/'' @ tpl n @ ''/'' @ tpl c"

definition createAckToSender :: "Identity \<Rightarrow> int \<Rightarrow> ProviderIdentity \<Rightarrow> AckToSender" where
  "createAckToSender identity messageId providerIdentity =
     \<lparr>ats_action = CHANNEL_ACK_ACTION,
      ats_correlationId = messageId,
      ats_destinationToken = identity,
      ats_payload = providerIdentity,
      ats_success = True\<rparr>"

definition closedEvent :: "ProviderIdentity \<Rightarrow> route_event" where
  "closedEvent p =
     (if isExternal p then ExternalApplicationRoute ''closed'' (uuid p)
      else WindowRoute ''closed'' (uuid p) (name p))"

definition createChannelTeardown :: "ProviderIdentity \<Rightarrow> channel_state \<Rightarrow> channel_state" where
  "createChannelTeardown p s =
     s\<lparr>onceListeners := onceListeners s @
         [(closedEvent p, RemoveAndDisconnect p),
          (ApplicationRoute ''closed'' (uuid p), RemoveOnly (channelId p))]\<rparr>"

definition getChannelByChannelId :: "channel_state \<Rightarrow> string \<Rightarrow> ProviderIdentity option" where
  "getChannelByChannelId s cid = map_of (channelMap s) cid"

definition getAllChannels :: "channel_state \<Rightarrow> ProviderIdentity list" where
  "getAllChannels s = map snd (channelMap s)"

text \<open>
  \<open>getChannelByIdentity\<close>: the channels of the uuid, all of them when \<open>name\<close> is falsy and
  those of the named owner otherwise, in insertion order.
\<close>

definition getChannelByIdentity :: "channel_state \<Rightarrow> Identity \<Rightarrow> ProviderIdentity list" where
  "getChannelByIdentity s identity =
     filter (\<lambda>channel. uuid channel = uuid identity \<and>
                (\<not> truthy_str (name identity) \<or> name channel = name identity))
       (map snd (channelMap s))"

text \<open>
  \<open>getChannelByChannelName\<close>: the \<open>forEach\<close> visits every channel and assigns the result
  variable at each match; there is no early exit.
\<close>

definition getChannelByChannelName :: "channel_state \<Rightarrow> string \<Rightarrow> ProviderIdentity option" where
  "getChannelByChannelName s cn =
     foldl (\<lambda>providerIdentity channel.
              if channelName channel = Some cn then Some channel else providerIdentity)
       None (map snd (channelMap s))"

definition registerFailed :: string where
  "registerFailed = ''Register Failed: Please note that only one channel may be registered per identity per channelName.''"

definition createChannel ::
  "(Identity \<Rightarrow> OwnerEntity option) \<Rightarrow> Identity \<Rightarrow> string option \<Rightarrow> channel_state
     \<Rightarrow> (error + ProviderIdentity) \<times> effect list \<times> channel_state" where
  "createChannel getExternalOrOfWindowIdentity identity cn s =
     (let cid = getChannelId (uuid identity) (name identity) cn in
      case getExternalOrOfWindowIdentity identity of
        None \<Rightarrow> (Inl (RegistrationError registerFailed), [], s)
      | Some providerApp \<Rightarrow>
          (case getChannelByChannelId s cid of
             Some existing \<Rightarrow> (Inl (RegistrationError registerFailed), [], s)
           | None \<Rightarrow>
               (let providerIdentity =
                      \<lparr>uuid = uuid providerApp, name = name providerApp,
                       isExternal = isExternal providerApp,
                       channelName = cn, channelId = cid\<rparr>;
                    s1 = s\<lparr>channelMap := AList.update cid providerIdentity (channelMap s)\<rparr>;
                    s2 = createChannelTeardown providerIdentity s1
                in (Inr providerIdentity,
                    [Emit (ChannelRoute ''channel-connected'') providerIdentity], s2))))"


text \<open>
  The notification bus as far as the registry uses it. \<open>emit_event\<close> is \<open>ofEvents.emit\<close>
  on a route that one-shot teardown watches may be armed on: every watch armed on the route
  is disarmed and run, in registration order.
\<close>

fun run_teardown :: "teardown_handler \<Rightarrow> channel_state \<Rightarrow> effect list \<times> channel_state" where
  "run_teardown (RemoveAndDisconnect p) s =
     ([Emit (ChannelRoute ''channel-disconnected'') p],
      s\<lparr>channelMap := AList.delete (channelId p) (channelMap s)\<rparr>)"
| "run_teardown (RemoveOnly cid) s =
     ([], s\<lparr>channelMap := AList.delete cid (channelMap s)\<rparr>)"

fun run_teardowns :: "teardown_handler list \<Rightarrow> channel_state \<Rightarrow> effect list \<times> channel_state" where
  "run_teardowns [] s = ([], s)"
| "run_teardowns (h # hs) s =
     (let (e1, s1) = run_teardown h s;
          (e2, s2) = run_teardowns hs s1
      in (e1 @ e2, s2))"

definition emit_event :: "route_event \<Rightarrow> channel_state \<Rightarrow> effect list \<times> channel_state" where
  "emit_event ev s =
     run_teardowns (map snd (filter (\<lambda>l. fst l = ev) (onceListeners s)))
       (s\<lparr>onceListeners := filter (\<lambda>l. fst l \<noteq> ev) (onceListeners s)\<rparr>)"

text \<open>The \<open>channel-disconnected\<close> notifications for one channel id among some effects.\<close>

definition disconnects_of :: "string \<Rightarrow> effect list \<Rightarrow> effect list" where
  "disconnects_of cid effs =
     filter (\<lambda>e. case e of
                    Emit r p \<Rightarrow> r = ChannelRoute ''channel-disconnected'' \<and> channelId p = cid
                  | _ \<Rightarrow> False) effs"

subsection \<open>Connecting a client\<close>

record ConnectPayload =
  cp_uuid :: "string option"
  cp_name :: "string option"
  cp_channelName :: "string option"
  cp_payload :: jsval

definition ambiguousMessage :: "string \<Rightarrow> string option \<Rightarrow> string" where
  "ambiguousMessage u n =
     ''More than one channel found for provider with identity: '' @
     (if truthy_str n then u @ ''/'' @ tpl n else u) @
     '', please include a channelName''"

definition connectionMessage ::
  "Identity \<Rightarrow> int \<Rightarrow> ProviderIdentity \<Rightarrow> jsval \<Rightarrow> ConnectionMessage" where
  "connectionMessage identity messageId providerIdentity connectionPayload =
     \<lparr>cm_action = CHANNEL_CONNECT_ACTION,
      cm_ackToSender = createAckToSender identity messageId providerIdentity,
      cm_providerIdentity = providerIdentity,
      cm_clientIdentity = identity,
      cm_payload = connectionPayload\<rparr>"

text \<open>The first half of \<open>connectToChannel\<close>: by channel name when it is truthy.\<close>

definition resolveByName :: "channel_state \<Rightarrow> string option \<Rightarrow> ProviderIdentity option" where
  "resolveByName s cn =
     (case cn of
        None \<Rightarrow> None
      | Some c \<Rightarrow> if c \<noteq> [] then getChannelByChannelName s c else None)"

text \<open>
  The second half: by identity when the name found nothing and \<open>uuid\<close> is truthy. More
  than one candidate calls \<open>nack\<close> and leaves the provider undefined; otherwise the
  destructuring takes the first element, undefined for the empty array.
\<close>

definition resolveByIdentity ::
  "channel_state \<Rightarrow> ConnectPayload \<Rightarrow> callback \<Rightarrow> ProviderIdentity option
     \<Rightarrow> ProviderIdentity option \<times> effect list" where
  "resolveByIdentity s payload nackf found =
     (case found of
        Some p \<Rightarrow> (Some p, [])
      | None \<Rightarrow>
          (case cp_uuid payload of
             None \<Rightarrow> (None, [])
           | Some u \<Rightarrow>
               if u = [] then (None, [])
               else
                 (let providerIdentityArray =
                        getChannelByIdentity s \<lparr>uuid = u, name = cp_name payload\<rparr>
                  in if length providerIdentityArray > 1
                     then (None, [CallNack nackf
                                    (NackString (ambiguousMessage u (cp_name payload)))])
                     else (case providerIdentityArray of
                             [] \<Rightarrow> (None, [])
                           | p # rest \<Rightarrow> (Some p, [])))))"

definition connectToChannel ::
  "Identity \<Rightarrow> ConnectPayload \<Rightarrow> int \<Rightarrow> callback \<Rightarrow> callback \<Rightarrow> channel_state
     \<Rightarrow> ProviderIdentity option \<times> effect list \<times> channel_state" where
  "connectToChannel identity payload messageId ackf nackf s =
     (let (providerIdentity, effs) =
            resolveByIdentity s payload nackf (resolveByName s (cp_channelName payload))
      in case providerIdentity of
           Some p \<Rightarrow>
             (Some p,
              effs @ [SendToIdentity p (connectionMessage identity messageId p (cp_payload payload))],
              s\<lparr>remoteAckMap := (remoteAckMap s)
                   (getAckKey messageId identity \<mapsto> \<lparr>ack = ackf, nack = nackf\<rparr>)\<rparr>)
         | None \<Rightarrow>
             (None, effs @ [CallNack nackf (NackString ''internal-nack'')], s))"

subsection \<open>Reporting a result\<close>

record ResultPayload =
  rp_reason :: jsval
  rp_success :: jsval
  rp_destinationToken :: Identity
  rp_correlationId :: int
  rp_payload :: jsval

definition sendChannelResult ::
  "Identity \<Rightarrow> ResultPayload \<Rightarrow> callback \<Rightarrow> callback \<Rightarrow> channel_state
     \<Rightarrow> effect list \<times> channel_state" where
  "sendChannelResult identity payload ackf nackf s =
     (let ackKey = getAckKey (rp_correlationId payload) (rp_destinationToken payload) in
      case remoteAckMap s ackKey of
        Some remoteAck \<Rightarrow>
          ((if truthy (rp_success payload)
            then [CallAck (ack remoteAck)
                    \<lparr>ar_success = True,
                     ar_data = (if truthy (rp_payload payload)
                                then Some (rp_payload payload) else None)\<rparr>]
            else [CallNack (nack remoteAck)
                    (NackError (if truthy (rp_reason payload) then rp_reason payload
                                else JStr ''Channel provider error''))]),
           s\<lparr>remoteAckMap := (remoteAckMap s)(ackKey := None)\<rparr>)
      | None \<Rightarrow>
          ([CallNack nackf (NackString ''Ack failed, initial channel message not found.'')], s))"


section \<open>The request dispatch handler of the in-runtime transport\<close>








section \<open>Deferred acknowledgement of a transaction\<close>













section \<open>Outbound buffering\<close>

record BrowserWindow =
  bw_id :: int
  bw_isDestroyed :: bool

text \<open>A routing id is a number or not (\<open>None\<close>); \<open>typeof x === 'number'\<close> tells them apart.\<close>

record RoutingInfo =
  ri_browserWindow :: BrowserWindow
  ri_frameRoutingId :: "int option"
  ri_mainFrameRoutingId :: "int option"

record BufferedMessages =
  bm_identity :: Identity
  bm_frameRoutingId :: "int option"
  bm_key :: string
  bm_messages :: "string list"

text \<open>The batch envelope, before \<open>JSON.stringify\<close>.\<close>

record BatchMessage =
  batch_action :: string
  batch_messages :: "string list"

datatype transport_effect =
    SendToFrame int "int option" BatchMessage
  | BrowserWindowSend int BatchMessage
  | DebugLogRoutingNotFound Identity
  | DebugLogNotReachable Identity "string list"

definition canTrySend :: "RoutingInfo \<Rightarrow> bool" where
  "canTrySend routingInfo =
     (\<not> bw_isDestroyed (ri_browserWindow routingInfo) \<and> ri_frameRoutingId routingInfo \<noteq> None)"

definition innerSend ::
  "bool \<Rightarrow> BatchMessage \<Rightarrow> int option \<Rightarrow> int option \<Rightarrow> BrowserWindow \<Rightarrow> transport_effect list" where
  "innerSend framesStrategy payload frameRoutingId mainFrameRoutingId browserWindow =
     (if frameRoutingId = mainFrameRoutingId then
        (if framesStrategy then [SendToFrame (bw_id browserWindow) frameRoutingId payload]
         else [BrowserWindowSend (bw_id browserWindow) payload])
      else [SendToFrame (bw_id browserWindow) frameRoutingId payload])"

definition delayedMessageHandler ::
  "(Identity \<Rightarrow> RoutingInfo option) \<Rightarrow> bool \<Rightarrow> BufferedMessages \<Rightarrow> transport_effect list" where
  "delayedMessageHandler getRoutingInfoByUuidFrame framesStrategy bufferedMessages =
     (case getRoutingInfoByUuidFrame (bm_identity bufferedMessages) of
        None \<Rightarrow> [DebugLogRoutingNotFound (bm_identity bufferedMessages)]
      | Some routingInfo \<Rightarrow>
          if \<not> canTrySend routingInfo
          then [DebugLogNotReachable (bm_identity bufferedMessages)
                  (bm_messages bufferedMessages)]
          else innerSend framesStrategy
                 \<lparr>batch_action = ''process-api-batch'',
                  batch_messages = bm_messages bufferedMessages\<rparr>
                 (ri_frameRoutingId routingInfo) (ri_mainFrameRoutingId routingInfo)
                 (ri_browserWindow routingInfo))"

text \<open>
  The buffered message handler. \<open>pendingMessages\<close> is an object used as a dictionary; its
  keys (\<open>"<window id> - <frame id>"\<close>) are listed by \<open>Object.keys\<close> in insertion order.
  \<open>immediates\<close> counts the \<open>() => this.flush()\<close> callbacks that \<open>setImmediate\<close> has queued
  for the end of the current tick.
\<close>

record buffer_state =
  pendingMessages :: "(string \<times> BufferedMessages) list"
  pendingFlush :: bool
  immediates :: nat

definition empty_buffer :: buffer_state where
  "empty_buffer = \<lparr>pendingMessages = [], pendingFlush = False, immediates = 0\<rparr>"

definition add :: "string \<Rightarrow> Identity \<Rightarrow> int option \<Rightarrow> string \<Rightarrow> buffer_state \<Rightarrow> buffer_state" where
  "add key identity frameRoutingId payload st =
     (let st1 = (if \<not> pendingFlush st then st\<lparr>immediates := Suc (immediates st)\<rparr> else st);
          entry = (case map_of (pendingMessages st1) key of
                     Some e \<Rightarrow> e
                   | None \<Rightarrow> \<lparr>bm_identity = identity, bm_frameRoutingId = frameRoutingId,
                              bm_key = key, bm_messages = []\<rparr>)
      in st1\<lparr>pendingMessages :=
               AList.update key (entry\<lparr>bm_messages := bm_messages entry @ [payload]\<rparr>)
                 (pendingMessages st1)\<rparr>)"

definition flush ::
  "(Identity \<Rightarrow> RoutingInfo option) \<Rightarrow> bool \<Rightarrow> buffer_state
     \<Rightarrow> transport_effect list \<times> buffer_state" where
  "flush getRoutingInfoByUuidFrame framesStrategy st =
     (concat (map (\<lambda>(key, bufferedMessages).
                     delayedMessageHandler getRoutingInfoByUuidFrame framesStrategy bufferedMessages)
                (pendingMessages st)),
      st\<lparr>pendingMessages :=
           map (\<lambda>(key, bufferedMessages). (key, bufferedMessages\<lparr>bm_messages := []\<rparr>))
             (pendingMessages st),
         pendingFlush := False\<rparr>)"

text \<open>The end of the tick: the queued callbacks run one after another.\<close>

fun run_flushes ::
  "(Identity \<Rightarrow> RoutingInfo option) \<Rightarrow> bool \<Rightarrow> nat \<Rightarrow> buffer_state
     \<Rightarrow> transport_effect list \<times> buffer_state" where
  "run_flushes getRoutingInfoByUuidFrame framesStrategy 0 st = ([], st)"
| "run_flushes getRoutingInfoByUuidFrame framesStrategy (Suc n) st =
     (let (e1, st1) = flush getRoutingInfoByUuidFrame framesStrategy st;
          (e2, st2) = run_flushes getRoutingInfoByUuidFrame framesStrategy n st1
      in (e1 @ e2, st2))"

definition end_of_tick ::
  "(Identity \<Rightarrow> RoutingInfo option) \<Rightarrow> bool \<Rightarrow> buffer_state
     \<Rightarrow> transport_effect list \<times> buffer_state" where
  "end_of_tick getRoutingInfoByUuidFrame framesStrategy st =
     run_flushes getRoutingInfoByUuidFrame framesStrategy (immediates st) (st\<lparr>immediates := 0\<rparr>)"

section \<open>Notions used by the properties\<close>

text \<open>A one-shot watch that, when it fires, emits a disconnect for the channel id.\<close>

definition disconnect_watch :: "string \<Rightarrow> route_event \<times> teardown_handler \<Rightarrow> bool" where
  "disconnect_watch cid l =
     (case snd l of RemoveAndDisconnect q \<Rightarrow> channelId q = cid | RemoveOnly c \<Rightarrow> False)"

text \<open>Several notifications emitted one after another.\<close>

definition emit_events :: "route_event list \<Rightarrow> channel_state \<Rightarrow> channel_state" where
  "emit_events evs s = fold (\<lambda>ev st. snd (emit_event ev st)) evs s"

text \<open>The effects that forward a message to a provider.\<close>

definition is_forward :: "effect \<Rightarrow> bool" where
  "is_forward e = (case e of SendToIdentity p m \<Rightarrow> True | _ \<Rightarrow> False)"





definition batch :: "string list \<Rightarrow> BatchMessage" where
  "batch ms = \<lparr>batch_action = ''process-api-batch'', batch_messages = ms\<rparr>"

section \<open>A scenario: two windows, a client, and their channels\<close>

definition resolve_window :: "Identity \<Rightarrow> OwnerEntity option" where
  "resolve_window i = Some \<lparr>uuid = uuid i, name = name i, isExternal = False\<rparr>"

definition ident_a :: Identity where
  "ident_a = \<lparr>uuid = ''app1'', name = Some ''win1''\<rparr>"

definition ident_b :: Identity where
  "ident_b = \<lparr>uuid = ''app2'', name = Some ''win2''\<rparr>"

definition client :: Identity where
  "client = \<lparr>uuid = ''client'', name = Some ''main''\<rparr>"

definition provider_a :: ProviderIdentity where
  "provider_a = \<lparr>uuid = ''app1'', name = Some ''win1'', isExternal = False,
                 channelName = Some ''svc'', channelId = ''app1/win1/svc''\<rparr>"

definition provider_a2 :: ProviderIdentity where
  "provider_a2 = \<lparr>uuid = ''app1'', name = Some ''win1'', isExternal = False,
                  channelName = Some ''aux'', channelId = ''app1/win1/aux''\<rparr>"

definition provider_b :: ProviderIdentity where
  "provider_b = \<lparr>uuid = ''app2'', name = Some ''win2'', isExternal = False,
                 channelName = Some ''svc'', channelId = ''app2/win2/svc''\<rparr>"

definition provider_unnamed :: ProviderIdentity where
  "provider_unnamed = \<lparr>uuid = ''app2'', name = Some ''win2'', isExternal = False,
                       channelName = Some [], channelId = ''app2/win2/''\<rparr>"

text \<open>Window 1 of app1 registers \<open>svc\<close>.\<close>

definition state_a :: channel_state where
  "state_a = snd (snd (createChannel resolve_window ident_a (Some ''svc'') initial_state))"

text \<open>Then window 2 of app2 registers \<open>svc\<close> as well.\<close>

definition state_ab :: channel_state where
  "state_ab = snd (snd (createChannel resolve_window ident_b (Some ''svc'') state_a))"

text \<open>Or window 1 registers a second channel, \<open>aux\<close>.\<close>

definition state_aa :: channel_state where
  "state_aa = snd (snd (createChannel resolve_window ident_a (Some ''aux'') state_a))"

text \<open>Window 2 registers a channel whose name is the empty string.\<close>

definition state_unnamed :: channel_state where
  "state_unnamed = snd (snd (createChannel resolve_window ident_b (Some []) initial_state))"

text \<open>
  The application-level close notification of app1 arrives and the window-level one does
  not; the application comes back and window 1 registers \<open>svc\<close> again.
\<close>

definition state_a_app_closed :: channel_state where
  "state_a_app_closed = snd (emit_event (ApplicationRoute ''closed'' ''app1'') state_a)"

definition state_a_again :: channel_state where
  "state_a_again =
     snd (snd (createChannel resolve_window ident_a (Some ''svc'') state_a_app_closed))"

text \<open>
  Connection requests: by channel name, by the empty name, by uuid alone, and by identity
  with a channel name that nobody registered.
\<close>

definition connect_svc :: ConnectPayload where
  "connect_svc = \<lparr>cp_uuid = None, cp_name = None, cp_channelName = Some ''svc'',
                  cp_payload = JNull\<rparr>"

definition connect_unnamed :: ConnectPayload where
  "connect_unnamed = \<lparr>cp_uuid = None, cp_name = None, cp_channelName = Some [],
                      cp_payload = JNull\<rparr>"

definition connect_app1 :: ConnectPayload where
  "connect_app1 = \<lparr>cp_uuid = Some ''app1'', cp_name = None, cp_channelName = None,
                   cp_payload = JNull\<rparr>"

definition connect_win1 :: ConnectPayload where
  "connect_win1 = \<lparr>cp_uuid = Some ''app1'', cp_name = Some ''win1'',
                   cp_channelName = Some ''other'', cp_payload = JNull\<rparr>"

text \<open>The client's request 7 to \<open>svc\<close> is pending, with callbacks 1 and 2.\<close>

definition state_pending :: channel_state where
  "state_pending = snd (snd (connectToChannel client connect_svc 7 1 2 state_a))"

definition result_ready :: ResultPayload where
  "result_ready = \<lparr>rp_reason = JUndefined, rp_success = JBool True,
                   rp_destinationToken = client, rp_correlationId = 7,
                   rp_payload = JObj [(''ready'', JBool True)]\<rparr>"

definition result_zero :: ResultPayload where
  "result_zero = \<lparr>rp_reason = JUndefined, rp_success = JBool True,
                  rp_destinationToken = client, rp_correlationId = 7,
                  rp_payload = JNum 0\<rparr>"

section \<open>A scenario: requests, a transaction, and buffered payloads\<close>











text \<open>Both windows are open and reachable; their main frames have routing id 1.\<close>

definition routing_open :: "Identity \<Rightarrow> RoutingInfo option" where
  "routing_open i =
     (if uuid i = ''app1'' then
        Some \<lparr>ri_browserWindow = \<lparr>bw_id = 5, bw_isDestroyed = False\<rparr>,
              ri_frameRoutingId = Some 1, ri_mainFrameRoutingId = Some 1\<rparr>
      else if uuid i = ''app2'' then
        Some \<lparr>ri_browserWindow = \<lparr>bw_id = 6, bw_isDestroyed = False\<rparr>,
              ri_frameRoutingId = Some 1, ri_mainFrameRoutingId = Some 1\<rparr>
      else None)"

text \<open>Three payloads for window 5 in one tick; one payload each for windows 5 and 6.\<close>

definition three_same :: buffer_state where
  "three_same =
     add ''5 - 1'' ident_a (Some 1) ''p3''
       (add ''5 - 1'' ident_a (Some 1) ''p2''
          (add ''5 - 1'' ident_a (Some 1) ''p1'' empty_buffer))"

definition two_destinations :: buffer_state where
  "two_destinations =
     add ''6 - 1'' ident_b (Some 1) ''q1''
       (add ''5 - 1'' ident_a (Some 1) ''p1'' empty_buffer)"

section \<open>Evaluating the scenario\<close>

lemmas scenario_defs =
  state_a_def state_ab_def state_aa_def state_unnamed_def state_a_app_closed_def
  state_a_again_def state_pending_def initial_state_def resolve_window_def
  ident_a_def ident_b_def client_def provider_a_def provider_a2_def provider_b_def
  provider_unnamed_def connect_svc_def connect_unnamed_def connect_app1_def connect_win1_def
  result_ready_def result_zero_def

lemmas registry_defs =
  createChannel_def createChannelTeardown_def getChannelByChannelId_def getChannelId_def
  getAllChannels_def getChannelByChannelName_def getChannelByIdentity_def closedEvent_def
  emit_event_def Let_def

lemmas connect_defs =
  connectToChannel_def resolveByName_def resolveByIdentity_def connectionMessage_def
  createAckToSender_def getAckKey_def num_str_def digit_char_def ambiguousMessage_def
  CHANNEL_CONNECT_ACTION_def CHANNEL_ACK_ACTION_def

lemma state_a_eval:
  "state_a = \<lparr>channelMap = [(''app1/win1/svc'', provider_a)], remoteAckMap = Map.empty,
              onceListeners =
                [(WindowRoute ''closed'' ''app1'' (Some ''win1''), RemoveAndDisconnect provider_a),
                 (ApplicationRoute ''closed'' ''app1'', RemoveOnly ''app1/win1/svc'')]\<rparr>"
  by (simp add: scenario_defs registry_defs)

lemma state_ab_channels: "getAllChannels state_ab = [provider_a, provider_b]"
  by (simp add: scenario_defs registry_defs)

lemma state_aa_channels: "getAllChannels state_aa = [provider_a, provider_a2]"
  by (simp add: scenario_defs registry_defs)

lemma state_unnamed_channels: "getAllChannels state_unnamed = [provider_unnamed]"
  by (simp add: scenario_defs registry_defs)

lemma state_pending_eval:
  "state_pending = state_a\<lparr>remoteAckMap := [''7-client-main'' \<mapsto> \<lparr>ack = 1, nack = 2\<rparr>]\<rparr>"
  by (simp add: state_pending_def state_a_eval)
     (simp add: scenario_defs registry_defs connect_defs)

section \<open>Helper lemmas\<close>

lemma update_fresh: "map_of xs k = None \<Longrightarrow> AList.update k v xs = xs @ [(k, v)]"
  by (induction xs) (auto split: if_splits)

lemma foldl_last_match:
  "foldl (\<lambda>acc ch. if P ch then Some ch else acc) a xs =
     (if filter P xs = [] then a else Some (last (filter P xs)))"
  by (induction xs arbitrary: a) auto

lemma getChannelByChannelName_filter:
  "getChannelByChannelName s cn =
     (if filter (\<lambda>channel. channelName channel = Some cn) (getAllChannels s) = [] then None
      else Some (last (filter (\<lambda>channel. channelName channel = Some cn) (getAllChannels s))))"
  by (simp add: getChannelByChannelName_def getAllChannels_def foldl_last_match)

lemma getChannelByChannelName_unique:
  "filter (\<lambda>channel. channelName channel = Some cn) (getAllChannels s) = [p]
     \<Longrightarrow> getChannelByChannelName s cn = Some p"
  by (simp add: getChannelByChannelName_filter)

lemma getChannelByChannelName_none:
  "\<forall>ch \<in> set (getAllChannels s). channelName ch \<noteq> Some cn
     \<Longrightarrow> getChannelByChannelName s cn = None"
  by (simp add: getChannelByChannelName_filter filter_empty_conv)

lemma resolveByName_none:
  assumes "cp_channelName payload = None \<or>
           (\<exists>cn. cp_channelName payload = Some cn \<and>
                 (\<forall>ch \<in> set (getAllChannels s). channelName ch \<noteq> Some cn))"
  shows "resolveByName s (cp_channelName payload) = None"
  using assms getChannelByChannelName_none
  by (auto simp: resolveByName_def split: option.splits)

section \<open>Registration\<close>

text \<open>
  C1. \<open>createChannel\<close> fails with the registration error when the owning entity cannot be
  resolved or when a channel is already stored under the computed channel id; it then
  emits nothing and leaves the whole state, the channel map included, as it was. When the
  entity resolves and the id is free, it stores the provider identity (the entity's fields
  with the channel name and id) under the id, as the newest entry of the map, and emits one
  \<open>channel-connected\<close> notification carrying it. A second \<open>createChannel\<close> for the same
  identity and channel name then fails, whatever the resolver says, so only one
  registration of a channel id succeeds while it is registered.
\<close>

theorem createChannel_registration:
  "(resolve identity = None \<or>
      getChannelByChannelId s (getChannelId (uuid identity) (name identity) cn) \<noteq> None
      \<longrightarrow> createChannel resolve identity cn s = (Inl (RegistrationError registerFailed), [], s))
   \<and> (\<forall>providerApp.
        resolve identity = Some providerApp \<and>
        getChannelByChannelId s (getChannelId (uuid identity) (name identity) cn) = None
        \<longrightarrow> (\<exists>p s'. createChannel resolve identity cn s =
                      (Inr p, [Emit (ChannelRoute ''channel-connected'') p], s')
                 \<and> p = \<lparr>uuid = uuid providerApp, name = name providerApp,
                        isExternal = isExternal providerApp, channelName = cn,
                        channelId = getChannelId (uuid identity) (name identity) cn\<rparr>
                 \<and> channelMap s' = channelMap s @ [(channelId p, p)]
                 \<and> getChannelByChannelId s' (channelId p) = Some p
                 \<and> (\<forall>resolve'. createChannel resolve' identity cn s' =
                                  (Inl (RegistrationError registerFailed), [], s'))))"
  by (auto simp: createChannel_def Let_def getChannelByChannelId_def createChannelTeardown_def
        update_fresh map_add_def split: option.splits)

theorem createChannel_registration_witness:
  "resolve_window ident_a = Some \<lparr>uuid = ''app1'', name = Some ''win1'', isExternal = False\<rparr> \<and>
   getChannelByChannelId initial_state ''app1/win1/svc'' = None \<and>
   createChannel resolve_window ident_a (Some ''svc'') initial_state =
     (Inr provider_a, [Emit (ChannelRoute ''channel-connected'') provider_a], state_a) \<and>
   getChannelByChannelId state_a ''app1/win1/svc'' = Some provider_a \<and>
   createChannel resolve_window ident_a (Some ''svc'') state_a =
     (Inl (RegistrationError registerFailed), [], state_a) \<and>
   createChannel Map.empty ident_b (Some ''svc'') state_a =
     (Inl (RegistrationError registerFailed), [], state_a)"
proof -
  have cid: "getChannelId (uuid ident_a) (name ident_a) (Some ''svc'') = ''app1/win1/svc''"
    by (simp add: getChannelId_def ident_a_def)
  have r: "resolve_window ident_a =
             Some \<lparr>uuid = ''app1'', name = Some ''win1'', isExternal = False\<rparr>"
    by (simp add: resolve_window_def ident_a_def)
  have free: "getChannelByChannelId initial_state ''app1/win1/svc'' = None"
    by (simp add: getChannelByChannelId_def initial_state_def)
  have taken: "getChannelByChannelId state_a ''app1/win1/svc'' = Some provider_a"
    by (simp add: getChannelByChannelId_def state_a_eval)
  have first: "createChannel resolve_window ident_a (Some ''svc'') initial_state =
     (Inr provider_a, [Emit (ChannelRoute ''channel-connected'') provider_a], state_a)"
    using createChannel_registration [of resolve_window ident_a initial_state "Some ''svc''"]
      r free
    by (auto simp: cid provider_a_def state_a_def)
  have second: "createChannel resolve_window ident_a (Some ''svc'') state_a =
     (Inl (RegistrationError registerFailed), [], state_a)"
    using createChannel_registration [of resolve_window ident_a state_a "Some ''svc''"] taken
    by (simp add: cid)
  have unresolved: "createChannel Map.empty ident_b (Some ''svc'') state_a =
     (Inl (RegistrationError registerFailed), [], state_a)"
    using createChannel_registration [of Map.empty ident_b state_a "Some ''svc''"]
    by simp
  from r free first taken second unresolved show ?thesis by simp
qed

section \<open>Lookup by channel name\<close>

text \<open>
  C8, as the code has it. \<open>getChannelByChannelName\<close> returns the last provider, in
  registration order, whose channel name is the requested one, and nothing when no
  provider has that name.
\<close>

theorem getChannelByChannelName_last:
  "getChannelByChannelName s cn =
     (let matches = filter (\<lambda>channel. channelName channel = Some cn) (getAllChannels s)
      in if matches = [] then None else Some (last matches))"
  by (simp add: getChannelByChannelName_filter Let_def)

text \<open>
  Two providers registered one after the other under the channel name \<open>svc\<close>: the lookup
  returns the second, not the first.
\<close>

theorem getChannelByChannelName_first_counterexample:
  "getAllChannels state_ab = [provider_a, provider_b] \<and>
   channelName provider_a = Some ''svc'' \<and> channelName provider_b = Some ''svc'' \<and>
   getChannelByChannelName state_ab ''svc'' = Some provider_b \<and>
   getChannelByChannelName state_ab ''svc'' \<noteq> Some provider_a"
  by (simp add: scenario_defs registry_defs)


section \<open>Connecting\<close>

text \<open>
  C3, as the code has it. When the request carries a non-empty channel name and exactly
  one registered provider has that channel name, \<open>connectToChannel\<close> returns that provider,
  forwards exactly one \<open>process-channel-connection\<close> message to it, calls neither callback,
  and stores the two callbacks under the key made of the message id and the requester's
  uuid and name; nothing else in the state changes.
\<close>

theorem connectToChannel_by_name:
  assumes "cp_channelName payload = Some cn" and "cn \<noteq> []"
    and "filter (\<lambda>channel. channelName channel = Some cn) (getAllChannels s) = [p]"
  shows "connectToChannel identity payload messageId ackf nackf s =
           (Some p,
            [SendToIdentity p
               \<lparr>cm_action = ''process-channel-connection'',
                cm_ackToSender = createAckToSender identity messageId p,
                cm_providerIdentity = p, cm_clientIdentity = identity,
                cm_payload = cp_payload payload\<rparr>],
            s\<lparr>remoteAckMap := (remoteAckMap s)
                 (num_str messageId @ ''-'' @ uuid identity @ ''-'' @ tpl (name identity)
                    \<mapsto> \<lparr>ack = ackf, nack = nackf\<rparr>)\<rparr>)"
  using assms(1,2) getChannelByChannelName_unique[OF assms(3)]
  by (simp add: connectToChannel_def resolveByName_def resolveByIdentity_def connectionMessage_def
        CHANNEL_CONNECT_ACTION_def getAckKey_def)

theorem connectToChannel_by_name_witness:
  "cp_channelName connect_svc = Some ''svc'' \<and> ''svc'' \<noteq> [] \<and>
   filter (\<lambda>channel. channelName channel = Some ''svc'') (getAllChannels state_a) = [provider_a] \<and>
   connectToChannel client connect_svc 7 1 2 state_a =
     (Some provider_a,
      [SendToIdentity provider_a
         \<lparr>cm_action = ''process-channel-connection'',
          cm_ackToSender = createAckToSender client 7 provider_a,
          cm_providerIdentity = provider_a, cm_clientIdentity = client,
          cm_payload = JNull\<rparr>],
      state_a\<lparr>remoteAckMap := [''7-client-main'' \<mapsto> \<lparr>ack = 1, nack = 2\<rparr>]\<rparr>)"
proof -
  have h1: "cp_channelName connect_svc = Some ''svc''"
    by (simp add: connect_svc_def)
  have h2: "''svc'' \<noteq> []"
    by simp
  have h3: "filter (\<lambda>channel. channelName channel = Some ''svc'') (getAllChannels state_a) =
              [provider_a]"
    by (simp add: state_a_eval getAllChannels_def) (simp add: provider_a_def)
  have key: "num_str 7 = ''7''" "uuid client = ''client''" "name client = Some ''main''"
    by (simp_all add: num_str_def digit_char_def client_def)
  have empty: "remoteAckMap state_a = Map.empty"
    by (simp add: state_a_eval)
  show ?thesis
    using connectToChannel_by_name [OF h1 h2 h3, of client 7 1 2] h1 h2 h3
    by (simp add: key empty connect_svc_def)
qed

text \<open>
  A provider registered under the empty channel name and a request that names the empty
  channel: the name matches exactly one provider, yet nothing is forwarded or stored and
  the caller gets the \<open>internal-nack\<close>.
\<close>

theorem connectToChannel_empty_name_counterexample:
  "getAllChannels state_unnamed = [provider_unnamed] \<and>
   channelName provider_unnamed = cp_channelName connect_unnamed \<and>
   connectToChannel client connect_unnamed 7 1 2 state_unnamed =
     (None, [CallNack 2 (NackString ''internal-nack'')], state_unnamed)"
  by (simp add: state_unnamed_channels)
     (simp add: provider_unnamed_def connect_unnamed_def connect_defs)

text \<open>
  C4. When the channel name found no provider, the request's uuid is truthy and the
  providers registered for the requested identity are two or more, \<open>connectToChannel\<close>
  returns no provider, forwards nothing, leaves the state (the correlation table included)
  as it was, and calls the caller's \<open>nack\<close> with the message that names the requested
  identity: uuid and name when a name was given, the uuid otherwise.
\<close>

theorem connectToChannel_ambiguous:
  assumes "resolveByName s (cp_channelName payload) = None"
    and "cp_uuid payload = Some u" and "u \<noteq> []"
    and "length (getChannelByIdentity s \<lparr>uuid = u, name = cp_name payload\<rparr>) \<ge> 2"
  shows "fst (connectToChannel identity payload messageId ackf nackf s) = None \<and>
         filter is_forward (fst (snd (connectToChannel identity payload messageId ackf nackf s))) = [] \<and>
         snd (snd (connectToChannel identity payload messageId ackf nackf s)) = s \<and>
         CallNack nackf (NackString
           (''More than one channel found for provider with identity: '' @
            (if truthy_str (cp_name payload) then u @ ''/'' @ tpl (cp_name payload) else u) @
            '', please include a channelName''))
           \<in> set (fst (snd (connectToChannel identity payload messageId ackf nackf s)))"
  using assms
  by (auto simp: connectToChannel_def resolveByIdentity_def ambiguousMessage_def is_forward_def
      split: option.splits)

theorem connectToChannel_ambiguous_witness:
  "resolveByName state_aa (cp_channelName connect_app1) = None \<and>
   cp_uuid connect_app1 = Some ''app1'' \<and> ''app1'' \<noteq> [] \<and>
   getChannelByIdentity state_aa \<lparr>uuid = ''app1'', name = cp_name connect_app1\<rparr> =
     [provider_a, provider_a2] \<and>
   fst (connectToChannel client connect_app1 7 1 2 state_aa) = None \<and>
   filter is_forward (fst (snd (connectToChannel client connect_app1 7 1 2 state_aa))) = [] \<and>
   snd (snd (connectToChannel client connect_app1 7 1 2 state_aa)) = state_aa \<and>
   CallNack 2 (NackString
     ''More than one channel found for provider with identity: app1, please include a channelName'')
     \<in> set (fst (snd (connectToChannel client connect_app1 7 1 2 state_aa)))"
proof -
  have h1: "resolveByName state_aa (cp_channelName connect_app1) = None"
    by (simp add: resolveByName_def connect_app1_def)
  have h2: "cp_uuid connect_app1 = Some ''app1''"
    by (simp add: connect_app1_def)
  have h3: "''app1'' \<noteq> []"
    by simp
  have arr: "getChannelByIdentity state_aa \<lparr>uuid = ''app1'', name = cp_name connect_app1\<rparr> =
               [provider_a, provider_a2]"
    using state_aa_channels
    by (simp add: getChannelByIdentity_def getAllChannels_def connect_app1_def)
       (simp add: provider_a_def provider_a2_def)
  have h4: "length (getChannelByIdentity state_aa
                      \<lparr>uuid = ''app1'', name = cp_name connect_app1\<rparr>) \<ge> 2"
    by (simp add: arr)
  have n: "cp_name connect_app1 = None"
    by (simp add: connect_app1_def)
  show ?thesis
    using connectToChannel_ambiguous [OF h1 h2 h3 h4, of client 7 1 2] h1 h2 h3 arr
    by (simp add: n)
qed

text \<open>
  C10. When the request has no channel name, or one that no provider has, its uuid is
  truthy and the providers registered for the requested identity are two or more, the
  calls that \<open>connectToChannel\<close> makes are exactly two calls of the caller's \<open>nack\<close>: the
  disambiguation message first and the string \<open>internal-nack\<close> second.
\<close>

theorem connectToChannel_double_nack:
  assumes "cp_channelName payload = None \<or>
           (\<exists>cn. cp_channelName payload = Some cn \<and>
                 (\<forall>ch \<in> set (getAllChannels s). channelName ch \<noteq> Some cn))"
    and "cp_uuid payload = Some u" and "u \<noteq> []"
    and "length (getChannelByIdentity s \<lparr>uuid = u, name = cp_name payload\<rparr>) \<ge> 2"
  shows "fst (snd (connectToChannel identity payload messageId ackf nackf s)) =
           [CallNack nackf (NackString (ambiguousMessage u (cp_name payload))),
            CallNack nackf (NackString ''internal-nack'')]"
  using assms(2-4) resolveByName_none[OF assms(1)]
  by (auto simp: connectToChannel_def resolveByIdentity_def split: option.splits)

theorem connectToChannel_double_nack_witness:
  "cp_channelName connect_win1 = Some ''other'' \<and>
   getAllChannels state_aa = [provider_a, provider_a2] \<and>
   channelName provider_a \<noteq> Some ''other'' \<and> channelName provider_a2 \<noteq> Some ''other'' \<and>
   cp_uuid connect_win1 = Some ''app1'' \<and> ''app1'' \<noteq> [] \<and>
   getChannelByIdentity state_aa \<lparr>uuid = ''app1'', name = cp_name connect_win1\<rparr> =
     [provider_a, provider_a2] \<and>
   fst (snd (connectToChannel client connect_win1 8 3 4 state_aa)) =
     [CallNack 4 (NackString
        ''More than one channel found for provider with identity: app1/win1, please include a channelName''),
      CallNack 4 (NackString ''internal-nack'')]"
proof -
  have c: "cp_channelName connect_win1 = Some ''other''"
    by (simp add: connect_win1_def)
  have na: "channelName provider_a \<noteq> Some ''other''"
    and nb: "channelName provider_a2 \<noteq> Some ''other''"
    by (simp_all add: provider_a_def provider_a2_def)
  have h1: "cp_channelName connect_win1 = None \<or>
           (\<exists>cn. cp_channelName connect_win1 = Some cn \<and>
                 (\<forall>ch \<in> set (getAllChannels state_aa). channelName ch \<noteq> Some cn))"
    using c na nb by (simp add: state_aa_channels)
  have h2: "cp_uuid connect_win1 = Some ''app1''"
    by (simp add: connect_win1_def)
  have h3: "''app1'' \<noteq> []"
    by simp
  have arr: "getChannelByIdentity state_aa \<lparr>uuid = ''app1'', name = cp_name connect_win1\<rparr> =
               [provider_a, provider_a2]"
    using state_aa_channels
    by (simp add: getChannelByIdentity_def getAllChannels_def connect_win1_def)
       (simp add: provider_a_def provider_a2_def)
  have h4: "length (getChannelByIdentity state_aa
                      \<lparr>uuid = ''app1'', name = cp_name connect_win1\<rparr>) \<ge> 2"
    by (simp add: arr)
  have msg: "ambiguousMessage ''app1'' (cp_name connect_win1) =
     ''More than one channel found for provider with identity: app1/win1, please include a channelName''"
    by (simp add: ambiguousMessage_def connect_win1_def)
  show ?thesis
    using connectToChannel_double_nack [OF h1 h2 h3 h4, of client 8 3 4]
      c na nb h2 h3 arr state_aa_channels
    by (simp add: msg)
qed

section \<open>Reporting a result\<close>

text \<open>
  C2, as the code has it. When \<open>success\<close> is truthy and the correlation table has an
  entry under the key of \<open>correlationId\<close> and \<open>destinationToken\<close>, \<open>sendChannelResult\<close>
  makes exactly one call, to that entry's \<open>ack\<close>, with \<open>success: true\<close> and with the
  \<open>data\<close> property set to the payload when the payload is truthy and left out when it is
  not, and removes the entry and nothing else. A later \<open>sendChannelResult\<close> with the same
  key, and any call whose key has no entry, makes exactly one call, to the caller's own
  \<open>nack\<close> with the message that the initial channel message was not found, and leaves the
  state as it was.
\<close>

theorem sendChannelResult_resolves:
  assumes "truthy (rp_success payload)"
    and "remoteAckMap s (getAckKey (rp_correlationId payload) (rp_destinationToken payload)) =
           Some remoteAck"
  shows "sendChannelResult identity payload ackf nackf s =
           ([CallAck (ack remoteAck)
               \<lparr>ar_success = True,
                ar_data = (if truthy (rp_payload payload) then Some (rp_payload payload)
                           else None)\<rparr>],
            s\<lparr>remoteAckMap := (remoteAckMap s)
                 (getAckKey (rp_correlationId payload) (rp_destinationToken payload) := None)\<rparr>)
         \<and> (\<forall>identity' payload' ackf' nackf'.
               getAckKey (rp_correlationId payload') (rp_destinationToken payload') =
               getAckKey (rp_correlationId payload) (rp_destinationToken payload)
               \<longrightarrow> sendChannelResult identity' payload' ackf' nackf'
                     (snd (sendChannelResult identity payload ackf nackf s)) =
                     ([CallNack nackf'
                         (NackString ''Ack failed, initial channel message not found.'')],
                      snd (sendChannelResult identity payload ackf nackf s)))
         \<and> (\<forall>identity' payload' ackf' nackf' t.
               remoteAckMap t
                 (getAckKey (rp_correlationId payload') (rp_destinationToken payload')) = None
               \<longrightarrow> sendChannelResult identity' payload' ackf' nackf' t =
                     ([CallNack nackf'
                         (NackString ''Ack failed, initial channel message not found.'')], t))"
  using assms by (auto simp: sendChannelResult_def Let_def)

theorem sendChannelResult_resolves_witness:
  "truthy (rp_success result_ready) \<and>
   remoteAckMap state_pending ''7-client-main'' = Some \<lparr>ack = 1, nack = 2\<rparr> \<and>
   sendChannelResult ident_a result_ready 5 6 state_pending =
     ([CallAck 1 \<lparr>ar_success = True, ar_data = Some (JObj [(''ready'', JBool True)])\<rparr>],
      state_a) \<and>
   sendChannelResult ident_a result_ready 5 6 state_a =
     ([CallNack 6 (NackString ''Ack failed, initial channel message not found.'')], state_a)"
proof -
  have key: "getAckKey (rp_correlationId result_ready) (rp_destinationToken result_ready) =
               ''7-client-main''"
    by (simp add: getAckKey_def num_str_def digit_char_def result_ready_def client_def)
  have h1: "truthy (rp_success result_ready)"
    by (simp add: result_ready_def)
  have h2: "remoteAckMap state_pending ''7-client-main'' = Some \<lparr>ack = 1, nack = 2\<rparr>"
    by (simp add: state_pending_eval)
  have after: "state_pending\<lparr>remoteAckMap := (remoteAckMap state_pending)
                 (''7-client-main'' := None)\<rparr> = state_a"
    by (simp add: state_pending_eval state_a_eval)
  have pl: "rp_payload result_ready = JObj [(''ready'', JBool True)]"
    by (simp add: result_ready_def)
  note th = sendChannelResult_resolves [of result_ready state_pending "\<lparr>ack = 1, nack = 2\<rparr>"
      ident_a 5 6, unfolded key, OF h1 h2]
  have first: "sendChannelResult ident_a result_ready 5 6 state_pending =
     ([CallAck 1 \<lparr>ar_success = True, ar_data = Some (JObj [(''ready'', JBool True)])\<rparr>],
      state_a)"
    using th by (simp add: after pl)
  have "sendChannelResult ident_a result_ready 5 6
          (snd (sendChannelResult ident_a result_ready 5 6 state_pending)) =
        ([CallNack 6 (NackString ''Ack failed, initial channel message not found.'')],
         snd (sendChannelResult ident_a result_ready 5 6 state_pending))"
    using th key by blast
  then have second: "sendChannelResult ident_a result_ready 5 6 state_a =
     ([CallNack 6 (NackString ''Ack failed, initial channel message not found.'')], state_a)"
    by (simp add: first)
  from h1 h2 first second show ?thesis by simp
qed

text \<open>
  A provider that reports success with the payload \<open>0\<close>: the entry's \<open>ack\<close> is called
  without a \<open>data\<close> property, not with \<open>data: 0\<close>.
\<close>

theorem sendChannelResult_falsy_payload_counterexample:
  "truthy (rp_success result_zero) \<and> rp_payload result_zero = JNum 0 \<and>
   remoteAckMap state_pending
     (getAckKey (rp_correlationId result_zero) (rp_destinationToken result_zero)) =
     Some \<lparr>ack = 1, nack = 2\<rparr> \<and>
   fst (sendChannelResult ident_a result_zero 5 6 state_pending) =
     [CallAck 1 \<lparr>ar_success = True, ar_data = None\<rparr>] \<and>
   fst (sendChannelResult ident_a result_zero 5 6 state_pending) \<noteq>
     [CallAck 1 \<lparr>ar_success = True, ar_data = Some (JNum 0)\<rparr>]"
  by (simp add: state_pending_eval)
     (simp add: sendChannelResult_def getAckKey_def num_str_def digit_char_def
        result_zero_def client_def)


section \<open>Teardown\<close>

lemma run_teardown_listeners: "onceListeners (snd (run_teardown h s)) = onceListeners s"
  by (cases h) auto

lemma run_teardowns_listeners:
  "onceListeners (snd (run_teardowns hs s)) = onceListeners s"
  by (induction hs arbitrary: s) (auto simp: split_beta Let_def run_teardown_listeners)

lemma run_teardown_absent:
  "map_of (channelMap s) cid = None \<Longrightarrow> map_of (channelMap (snd (run_teardown h s))) cid = None"
  by (cases h) (auto simp: delete_conv')

lemma run_teardowns_absent:
  "map_of (channelMap s) cid = None \<Longrightarrow> map_of (channelMap (snd (run_teardowns hs s))) cid = None"
proof (induction hs arbitrary: s)
  case Nil
  then show ?case by simp
next
  case (Cons h hs)
  from Cons.IH[OF run_teardown_absent[OF Cons.prems, of h]]
  show ?case by (simp add: split_beta Let_def)
qed

lemma run_teardowns_removes:
  "RemoveAndDisconnect p \<in> set hs \<or> RemoveOnly (channelId p) \<in> set hs \<Longrightarrow>
     map_of (channelMap (snd (run_teardowns hs s))) (channelId p) = None"
proof (induction hs arbitrary: s)
  case Nil
  then show ?case by simp
next
  case (Cons h hs)
  show ?case
  proof (cases "h = RemoveAndDisconnect p \<or> h = RemoveOnly (channelId p)")
    case True
    then have "map_of (channelMap (snd (run_teardown h s))) (channelId p) = None"
      by (auto simp: delete_conv')
    from run_teardowns_absent[OF this, of hs] show ?thesis
      by (simp add: split_beta Let_def)
  next
    case False
    with Cons.prems have "RemoveAndDisconnect p \<in> set hs \<or> RemoveOnly (channelId p) \<in> set hs"
      by auto
    from Cons.IH[OF this] show ?thesis by (simp add: split_beta Let_def)
  qed
qed

lemma run_teardowns_disconnects:
  "disconnects_of cid (fst (run_teardowns hs s)) =
     map (\<lambda>h. case h of RemoveAndDisconnect q \<Rightarrow> Emit (ChannelRoute ''channel-disconnected'') q)
       (filter (\<lambda>h. case h of RemoveAndDisconnect q \<Rightarrow> channelId q = cid | RemoveOnly c \<Rightarrow> False) hs)"
proof (induction hs arbitrary: s)
  case Nil
  then show ?case by (simp add: disconnects_of_def)
next
  case (Cons h hs)
  have "disconnects_of cid (fst (run_teardowns (h # hs) s)) =
          disconnects_of cid (fst (run_teardown h s)) @
          disconnects_of cid (fst (run_teardowns hs (snd (run_teardown h s))))"
    by (simp add: split_beta Let_def disconnects_of_def)
  with Cons.IH show ?case by (cases h) (auto simp: disconnects_of_def)
qed

lemma emit_event_absent:
  "getChannelByChannelId s cid = None \<Longrightarrow> getChannelByChannelId (snd (emit_event ev s)) cid = None"
  unfolding getChannelByChannelId_def emit_event_def
  by (rule run_teardowns_absent) simp

lemma emit_event_listeners:
  "onceListeners (snd (emit_event ev s)) = filter (\<lambda>l. fst l \<noteq> ev) (onceListeners s)"
  by (simp add: emit_event_def run_teardowns_listeners)

lemma emit_event_no_watch:
  assumes "filter (disconnect_watch cid) (onceListeners s) = []"
  shows "disconnects_of cid (fst (emit_event ev s)) = []"
proof -
  have "\<forall>l \<in> set (onceListeners s). \<not> disconnect_watch cid l"
    using assms by (simp add: filter_empty_conv)
  then show ?thesis
    by (auto simp: emit_event_def run_teardowns_disconnects filter_empty_conv disconnect_watch_def)
qed

lemma emit_event_keeps_no_watch:
  assumes "filter (disconnect_watch cid) (onceListeners s) = []"
  shows "filter (disconnect_watch cid) (onceListeners (snd (emit_event ev s))) = []"
  using assms by (auto simp: emit_event_listeners filter_empty_conv)

lemma emit_events_absent:
  "getChannelByChannelId s cid = None \<Longrightarrow> getChannelByChannelId (emit_events evs s) cid = None"
  unfolding emit_events_def
  by (induction evs arbitrary: s) (auto simp: emit_event_absent)

lemma emit_events_no_disconnect:
  assumes "filter (disconnect_watch cid) (onceListeners s) = []"
  shows "disconnects_of cid (fst (emit_event ev (emit_events evs s))) = []"
proof -
  have "filter (disconnect_watch cid) (onceListeners (emit_events evs s)) = []"
    using assms unfolding emit_events_def
    by (induction evs arbitrary: s) (auto simp: emit_event_keeps_no_watch)
  then show ?thesis by (rule emit_event_no_watch)
qed

lemma createChannel_listeners:
  assumes "createChannel resolve identity cn s = (Inr p, effs, s1)"
  shows "onceListeners s1 = onceListeners s @
           [(closedEvent p, RemoveAndDisconnect p),
            (ApplicationRoute ''closed'' (uuid p), RemoveOnly (channelId p))]"
  using assms
  by (auto simp: createChannel_def Let_def createChannelTeardown_def split: option.splits)

lemma closedEvent_not_application: "closedEvent p \<noteq> ApplicationRoute t u"
  by (simp add: closedEvent_def)

text \<open>
  C7, as the code has it. Let \<open>createChannel\<close> succeed for a provider in a state where no
  watch of an earlier registration that would emit a disconnect for the same channel id
  is still armed. Then emitting the owner's close notification (the external
  application's for an external owner, the window's otherwise) removes the channel id
  from the registry and emits exactly one \<open>channel-disconnected\<close> notification for that
  channel id, carrying the provider identity. Emitting the application's close
  notification instead removes the channel id and emits no disconnect for it. After the
  owner's close notification, whatever notifications follow, the lookup of the channel id
  returns nothing and no further disconnect for it is emitted.
\<close>

theorem teardown_on_close:
  assumes created: "createChannel resolve identity cn s = (Inr p, effs, s1)"
    and fresh: "filter (disconnect_watch (channelId p)) (onceListeners s) = []"
  shows "getChannelByChannelId (snd (emit_event (closedEvent p) s1)) (channelId p) = None \<and>
         disconnects_of (channelId p) (fst (emit_event (closedEvent p) s1)) =
           [Emit (ChannelRoute ''channel-disconnected'') p] \<and>
         getChannelByChannelId (snd (emit_event (ApplicationRoute ''closed'' (uuid p)) s1))
           (channelId p) = None \<and>
         disconnects_of (channelId p)
           (fst (emit_event (ApplicationRoute ''closed'' (uuid p)) s1)) = [] \<and>
         (\<forall>evs. getChannelByChannelId (emit_events evs (snd (emit_event (closedEvent p) s1)))
                  (channelId p) = None) \<and>
         (\<forall>evs ev. disconnects_of (channelId p)
                  (fst (emit_event ev (emit_events evs (snd (emit_event (closedEvent p) s1))))) = [])"
proof -
  note ls = createChannel_listeners[OF created]
  have nw: "\<forall>l \<in> set (onceListeners s). \<not> disconnect_watch (channelId p) l"
    using fresh by (simp add: filter_empty_conv)
  have a1: "getChannelByChannelId (snd (emit_event (closedEvent p) s1)) (channelId p) = None"
    unfolding getChannelByChannelId_def emit_event_def
    by (rule run_teardowns_removes) (simp add: ls)
  have f1: "filter (\<lambda>h. case h of RemoveAndDisconnect q \<Rightarrow> channelId q = channelId p
                            | RemoveOnly c \<Rightarrow> False)
              (map snd (filter (\<lambda>l. fst l = ev) (onceListeners s))) = []" for ev
    using nw by (auto simp: filter_empty_conv disconnect_watch_def)
  have a2: "disconnects_of (channelId p) (fst (emit_event (closedEvent p) s1)) =
           [Emit (ChannelRoute ''channel-disconnected'') p]"
    by (simp add: emit_event_def run_teardowns_disconnects ls f1 closedEvent_not_application)
  have a3: "getChannelByChannelId (snd (emit_event (ApplicationRoute ''closed'' (uuid p)) s1))
           (channelId p) = None"
    unfolding getChannelByChannelId_def emit_event_def
    by (rule run_teardowns_removes) (simp add: ls)
  have a4: "disconnects_of (channelId p)
           (fst (emit_event (ApplicationRoute ''closed'' (uuid p)) s1)) = []"
    by (simp add: emit_event_def run_teardowns_disconnects ls f1 closedEvent_not_application)
  have nw2: "filter (disconnect_watch (channelId p))
               (onceListeners (snd (emit_event (closedEvent p) s1))) = []"
    using nw by (auto simp: emit_event_listeners ls filter_empty_conv disconnect_watch_def)
  show ?thesis
    using a1 a2 a3 a4 emit_events_absent[OF a1] emit_events_no_disconnect[OF nw2] by blast
qed

theorem teardown_on_close_witness:
  "createChannel resolve_window ident_a (Some ''svc'') initial_state =
     (Inr provider_a, [Emit (ChannelRoute ''channel-connected'') provider_a], state_a) \<and>
   filter (disconnect_watch (channelId provider_a)) (onceListeners initial_state) = [] \<and>
   closedEvent provider_a = WindowRoute ''closed'' ''app1'' (Some ''win1'') \<and>
   getChannelByChannelId (snd (emit_event (closedEvent provider_a) state_a))
     (channelId provider_a) = None \<and>
   disconnects_of (channelId provider_a) (fst (emit_event (closedEvent provider_a) state_a)) =
     [Emit (ChannelRoute ''channel-disconnected'') provider_a] \<and>
   disconnects_of (channelId provider_a)
     (fst (emit_event (ApplicationRoute ''closed'' (uuid provider_a)) state_a)) = []"
proof -
  have h1: "createChannel resolve_window ident_a (Some ''svc'') initial_state =
     (Inr provider_a, [Emit (ChannelRoute ''channel-connected'') provider_a], state_a)"
    by (simp add: state_a_eval) (simp add: scenario_defs registry_defs)
  have h2: "filter (disconnect_watch (channelId provider_a)) (onceListeners initial_state) = []"
    by (simp add: initial_state_def)
  have ev: "closedEvent provider_a = WindowRoute ''closed'' ''app1'' (Some ''win1'')"
    by (simp add: closedEvent_def provider_a_def)
  from teardown_on_close [OF h1 h2] h1 h2 ev show ?thesis
    by simp
qed

text \<open>
  The application-level close notification arrives without the window-level one, the
  window registers the channel again, and then the window closes: the watch left armed by
  the first registration fires as well, and two disconnects are emitted for the channel.
\<close>

theorem teardown_stale_watch_counterexample:
  "fst (createChannel resolve_window ident_a (Some ''svc'') initial_state) = Inr provider_a \<and>
   getChannelByChannelId state_a_app_closed ''app1/win1/svc'' = None \<and>
   fst (createChannel resolve_window ident_a (Some ''svc'') state_a_app_closed) = Inr provider_a \<and>
   closedEvent provider_a = WindowRoute ''closed'' ''app1'' (Some ''win1'') \<and>
   fst (emit_event (WindowRoute ''closed'' ''app1'' (Some ''win1'')) state_a_again) =
     [Emit (ChannelRoute ''channel-disconnected'') provider_a,
      Emit (ChannelRoute ''channel-disconnected'') provider_a]"
  by (simp add: scenario_defs registry_defs)


section \<open>Deferred acknowledgement\<close>














section \<open>Unregistered actions\<close>



section \<open>Buffering\<close>

text \<open>
  \<open>add\<close> reads \<open>pendingFlush\<close> and never writes it; \<open>flush\<close> only ever resets it. While the
  flag is unset every \<open>add\<close> queues one more flush for the end of the tick.
\<close>

lemma add_keeps_pendingFlush:
  "pendingFlush (add key identity frameRoutingId payload st) = pendingFlush st"
  by (simp add: add_def Let_def)

lemma add_queues_flush:
  "\<not> pendingFlush st \<Longrightarrow>
     immediates (add key identity frameRoutingId payload st) = Suc (immediates st)"
  by (simp add: add_def Let_def)

text \<open>
  C6, on the code. \<open>add\<close> never sets \<open>pendingFlush\<close>, so every \<open>add\<close> queues a flush of its
  own. Three payloads added for one destination within a tick queue three flushes, and at
  the end of the tick the transport gets three sends: one batch with the three payloads in
  the order they were added, and two empty batches. One payload for each of two
  destinations gives four sends: a batch for each destination, then an empty batch for
  each.
\<close>

theorem buffered_sends:
  "pendingFlush three_same = False \<and> immediates three_same = 3 \<and>
   fst (end_of_tick routing_open False three_same) =
     [BrowserWindowSend 5 (batch [''p1'', ''p2'', ''p3'']),
      BrowserWindowSend 5 (batch []),
      BrowserWindowSend 5 (batch [])] \<and>
   fst (end_of_tick routing_open False two_destinations) =
     [BrowserWindowSend 5 (batch [''p1'']), BrowserWindowSend 6 (batch [''q1'']),
      BrowserWindowSend 5 (batch []), BrowserWindowSend 6 (batch [])]"
  by (simp add: three_same_def two_destinations_def add_def empty_buffer_def end_of_tick_def
        flush_def delayedMessageHandler_def canTrySend_def innerSend_def routing_open_def
        Let_def ident_a_def ident_b_def batch_def numeral_3_eq_3 numeral_2_eq_2)


end
